theory Spec2Isabelle
  imports Complex_Main "HOL-Library.Sublist"
begin

section \<open>thumb.py: contact-sheet thumbnails for the videos of a directory\<close>

text \<open>
  A shallow embedding of \<^verbatim>\<open>src/thumb.py\<close>. Python integers are \<open>int\<close>. Python floats
  (the frame rate, the video length in minutes, the aspect ratio) are modelled as exact
  rationals \<open>rat\<close>: every arithmetic step is the exact one, without the rounding of
  IEEE doubles. Images are modelled by the expression of library calls that built them,
  together with the numpy \<open>shape\<close> that expression has; pixel values are not modelled.
  The functions of \<^verbatim>\<open>cv2\<close>, \<^verbatim>\<open>numpy\<close>, \<^verbatim>\<open>datetime\<close> and \<^verbatim>\<open>os.path\<close> (POSIX flavour)
  that the program calls are modelled from their documented behaviour; progress reporting
  (\<^verbatim>\<open>tqdm\<close>) and \<^verbatim>\<open>print\<close> have no effect on the results and are left out.
\<close>

subsection \<open>Exceptions\<close>

datatype error = Cv2_error | ZeroDivisionError | TypeError | OverflowError

subsection \<open>Python numerics\<close>

text \<open>\<^verbatim>\<open>round(x)\<close> on a float: the nearest integer, a tie going to the even one.\<close>

definition py_round :: "rat \<Rightarrow> int" where
  "py_round x =
     (let f = \<lfloor>x\<rfloor>; d = x - of_int f
      in if d < 1 / 2 then f
         else if 1 / 2 < d then f + 1
         else if even f then f else f + 1)"

text \<open>\<^verbatim>\<open>int(x)\<close> on a float truncates towards zero.\<close>

definition py_int :: "rat \<Rightarrow> int" where
  "py_int x = (if x < 0 then \<lceil>x\<rceil> else \<lfloor>x\<rfloor>)"

text \<open>
  \<^verbatim>\<open>int(target ** 0.5)\<close> for \<open>target \<ge> 0\<close>: the integer square root of \<open>\<lfloor>target\<rfloor>\<close>,
  found by searching downwards for the largest \<open>k\<close> with \<open>k * k \<le> n\<close>.
\<close>

fun sqrt_search :: "nat \<Rightarrow> nat \<Rightarrow> nat" where
  "sqrt_search n 0 = 0"
| "sqrt_search n (Suc k) = (if Suc k * Suc k \<le> n then Suc k else sqrt_search n k)"

definition floor_sqrt :: "rat \<Rightarrow> int" where
  "floor_sqrt x = int (sqrt_search (nat \<lfloor>x\<rfloor>) (nat \<lfloor>x\<rfloor>))"

text \<open>\<^verbatim>\<open>divmod(a, b)\<close> with a float divisor: floored quotient and the matching remainder.\<close>

definition py_divmod :: "rat \<Rightarrow> rat \<Rightarrow> error + rat \<times> rat" where
  "py_divmod a b =
     (if b = 0 then Inl ZeroDivisionError
      else Inr (of_int \<lfloor>a / b\<rfloor>, a - of_int \<lfloor>a / b\<rfloor> * b))"

subsection \<open>Grid size: \<^verbatim>\<open>find_closest_numbers\<close> (lines 147--159)\<close>

text \<open>
  \<open>closest_difference\<close> starts as \<^verbatim>\<open>float('inf')\<close>, modelled as \<open>None\<close>: every
  difference is smaller than it.
\<close>

fun closer :: "int \<Rightarrow> int option \<Rightarrow> bool" where
  "closer difference None = True"
| "closer difference (Some closest_difference) = (difference < closest_difference)"

text \<open>The loop body, over the values of \<^verbatim>\<open>range(1, int(target ** 0.5) + 2)\<close>.\<close>

fun search :: "rat \<Rightarrow> int list \<Rightarrow> (int \<times> int) option \<times> int option
    \<Rightarrow> (int \<times> int) option \<times> int option" where
  "search target [] st = st"
| "search target (i # is) (closest_pair, closest_difference) =
     (let j = py_round (target / of_int i);
          difference = \<bar>i - j\<bar>
      in if closer difference closest_difference
         then search target is (Some (max i j, min i j), Some difference)
         else search target is (closest_pair, closest_difference))"

text \<open>
  A negative float raised to \<^verbatim>\<open>0.5\<close> is a complex number, which \<^verbatim>\<open>int\<close> rejects with
  a TypeError.
\<close>

definition find_closest_numbers :: "rat \<Rightarrow> error + (int \<times> int) option" where
  "find_closest_numbers target =
     (if target < 0 then Inl TypeError
      else Inr (fst (search target [1 .. floor_sqrt target + 1] (None, None))))"





subsection \<open>Images\<close>

text \<open>
  An image is the expression that built it. \<open>Raw h w c\<close> is a decoded frame of numpy shape
  \<open>(h, w, c)\<close>, \<open>Zeros h w c\<close> is \<^verbatim>\<open>np.zeros((h, w, c), dtype=np.uint8)\<close>,
  \<open>Resize img w h\<close> is \<^verbatim>\<open>cv2.resize(img, (w, h))\<close>, \<open>PutText img s\<close> is \<open>img\<close> after
  \<^verbatim>\<open>cv2.putText(img, s, (10, 20), FONT_HERSHEY_SIMPLEX, 0.5, (255, 255, 255), 1, LINE_AA)\<close>.
\<close>

datatype image =
    Raw int int int
  | Zeros int int int
  | Resize image int int
  | PutText image string
  | HConcat "image list"
  | VConcat "image list"

fun height :: "image \<Rightarrow> int" where
  "height (Raw h w c) = h"
| "height (Zeros h w c) = h"
| "height (Resize img w h) = h"
| "height (PutText img s) = height img"
| "height (HConcat imgs) = (case map height imgs of [] \<Rightarrow> 0 | h # _ \<Rightarrow> h)"
| "height (VConcat imgs) = sum_list (map height imgs)"

fun width :: "image \<Rightarrow> int" where
  "width (Raw h w c) = w"
| "width (Zeros h w c) = w"
| "width (Resize img w h) = w"
| "width (PutText img s) = width img"
| "width (HConcat imgs) = sum_list (map width imgs)"
| "width (VConcat imgs) = (case map width imgs of [] \<Rightarrow> 0 | w # _ \<Rightarrow> w)"

fun channels :: "image \<Rightarrow> int" where
  "channels (Raw h w c) = c"
| "channels (Zeros h w c) = c"
| "channels (Resize img w h) = channels img"
| "channels (PutText img s) = channels img"
| "channels (HConcat imgs) = (case map channels imgs of [] \<Rightarrow> 0 | c # _ \<Rightarrow> c)"
| "channels (VConcat imgs) = (case map channels imgs of [] \<Rightarrow> 0 | c # _ \<Rightarrow> c)"

text \<open>\<^verbatim>\<open>img.shape\<close>\<close>

definition shape :: "image \<Rightarrow> int \<times> int \<times> int" where
  "shape img = (height img, width img, channels img)"

text \<open>
  \<^verbatim>\<open>cv2.resize\<close> raises \<^verbatim>\<open>cv2.error\<close> when the requested size is empty.
\<close>

definition resize :: "image \<Rightarrow> int \<Rightarrow> int \<Rightarrow> error + image" where
  "resize img w h = (if w \<le> 0 \<or> h \<le> 0 then Inl Cv2_error else Inr (Resize img w h))"

text \<open>
  \<^verbatim>\<open>cv2.hconcat\<close> asserts that all images have the row count and the element type of the
  first, \<^verbatim>\<open>cv2.vconcat\<close> that they have its column count and element type; a failed
  assertion raises \<^verbatim>\<open>cv2.error\<close>. The program calls neither on an empty list.
\<close>

fun hconcat :: "image list \<Rightarrow> error + image" where
  "hconcat [] = Inl Cv2_error"
| "hconcat (x # xs) =
     (if list_all (\<lambda>y. height y = height x \<and> channels y = channels x) xs
      then Inr (HConcat (x # xs)) else Inl Cv2_error)"

fun vconcat :: "image list \<Rightarrow> error + image" where
  "vconcat [] = Inl Cv2_error"
| "vconcat (x # xs) =
     (if list_all (\<lambda>y. width y = width x \<and> channels y = channels x) xs
      then Inr (VConcat (x # xs)) else Inl Cv2_error)"

text \<open>\<^verbatim>\<open>check_frame_dimensions\<close> (lines 8--11)\<close>

definition check_frame_dimensions :: "image list \<Rightarrow> bool" where
  "check_frame_dimensions frames =
     (let frame_dimensions = set (map shape frames) in card frame_dimensions = 1)"

subsection \<open>Strings and paths\<close>



definition endswith :: "string \<Rightarrow> string \<Rightarrow> bool" where
  "endswith s suf = (length suf \<le> length s \<and> drop (length s - length suf) s = suf)"

text \<open>\<^verbatim>\<open>s.rfind(c)\<close>: the last index of \<open>c\<close>, or \<open>-1\<close>.\<close>

definition rfind :: "char \<Rightarrow> string \<Rightarrow> int" where
  "rfind c s =
     (case filter (\<lambda>i. s ! i = c) (rev [0 ..< length s]) of
        [] \<Rightarrow> - 1
      | i # _ \<Rightarrow> int i)"

text \<open>\<^verbatim>\<open>os.path.basename\<close>: what follows the last slash.\<close>

definition basename :: "string \<Rightarrow> string" where
  "basename p = drop (nat (rfind CHR ''/'' p + 1)) p"

text \<open>
  \<^verbatim>\<open>os.path.splitext(p)[0]\<close>: \<open>p\<close> up to its last dot, when that dot lies after the last
  slash and is preceded, in the file name, by a character other than a dot.
\<close>

definition splitext_root :: "string \<Rightarrow> string" where
  "splitext_root p =
     (let sepIndex = rfind CHR ''/'' p;
          dotIndex = rfind CHR ''.'' p
      in if sepIndex < dotIndex \<and>
            list_ex (\<lambda>c. c \<noteq> CHR ''.'') (drop (nat (sepIndex + 1)) (take (nat dotIndex) p))
         then take (nat dotIndex) p
         else p)"

text \<open>\<^verbatim>\<open>os.path.join(a, b)\<close>\<close>

definition path_join :: "string \<Rightarrow> string \<Rightarrow> string" where
  "path_join a b =
     (if take 1 b = ''/'' then b
      else if a = [] \<or> endswith a ''/'' then a @ b
      else a @ ''/'' @ b)"

text \<open>Decimal digits of a natural number, and the formats \<^verbatim>\<open>%d\<close>, \<^verbatim>\<open>%02d\<close>, \<^verbatim>\<open>%06d\<close>.\<close>

definition digit :: "nat \<Rightarrow> char" where
  "digit d = ''0123456789'' ! d"

fun dec :: "nat \<Rightarrow> string" where
  "dec n = (if n < 10 then [digit n] else dec (n div 10) @ [digit (n mod 10)])"

declare dec.simps [simp del]

definition fmt_d :: "int \<Rightarrow> string" where
  "fmt_d i = (if i < 0 then ''-'' @ dec (nat (- i)) else dec (nat i))"

definition fmt_0d :: "nat \<Rightarrow> int \<Rightarrow> string" where
  "fmt_0d w i =
     (if i < 0 then ''-'' @ replicate (w - 1 - length (dec (nat (- i)))) CHR ''0'' @ dec (nat (- i))
      else replicate (w - length (dec (nat i))) CHR ''0'' @ dec (nat i))"

subsection \<open>\<^verbatim>\<open>datetime.timedelta\<close>\<close>

record timedelta =
  days :: int
  seconds :: int
  microseconds :: int

text \<open>
  \<^verbatim>\<open>timedelta(seconds=s, milliseconds=ms)\<close> with float arguments: the total is rounded to
  whole microseconds (ties to even) and normalised to days, seconds in \<open>[0, 86400)\<close> and
  microseconds in \<open>[0, 10^6)\<close>; more than 999999999 days either way is an OverflowError.
\<close>

definition new_timedelta :: "rat \<Rightarrow> rat \<Rightarrow> error + timedelta" where
  "new_timedelta s ms =
     (let us = py_round (s * 1000000 + ms * 1000);
          d = us div 86400000000
      in if \<bar>d\<bar> > 999999999 then Inl OverflowError
         else Inr \<lparr>days = d,
                   seconds = (us div 1000000) mod 86400,
                   microseconds = us mod 1000000\<rparr>)"

text \<open>\<^verbatim>\<open>str(timedelta)\<close>: \<^verbatim>\<open>[D day[s], ]H:MM:SS[.UUUUUU]\<close>\<close>

definition str_timedelta :: "timedelta \<Rightarrow> string" where
  "str_timedelta t =
     (let mm = seconds t div 60; ss = seconds t mod 60;
          hh = mm div 60; mm = mm mod 60;
          s = fmt_d hh @ '':'' @ fmt_0d 2 mm @ '':'' @ fmt_0d 2 ss;
          s = (if days t \<noteq> 0
               then fmt_d (days t) @ '' day'' @ (if \<bar>days t\<bar> \<noteq> 1 then ''s'' else []) @ '', '' @ s
               else s)
      in if microseconds t \<noteq> 0 then s @ ''.'' @ fmt_0d 6 (microseconds t) else s)"

text \<open>
  The text drawn on a frame (lines 79, 80 and 86): \<^verbatim>\<open>divmod(current_frame, fps)\<close>, both
  results passed to \<^verbatim>\<open>timedelta\<close> as \<^verbatim>\<open>seconds\<close> and \<^verbatim>\<open>milliseconds\<close>, the string cut
  by \<^verbatim>\<open>[:-4]\<close>.
\<close>

definition timestamp_text :: "int \<Rightarrow> rat \<Rightarrow> error + string" where
  "timestamp_text current_frame fps =
     (case py_divmod (of_int current_frame) fps of
        Inl e \<Rightarrow> Inl e
      | Inr (timestamp_seconds, milliseconds) \<Rightarrow>
          (case new_timedelta timestamp_seconds milliseconds of
             Inl e \<Rightarrow> Inl e
           | Inr t \<Rightarrow> let timestamp = str_timedelta t
                      in Inr (take (length timestamp - 4) timestamp)))"

subsection \<open>The video source and the world\<close>

text \<open>
  What \<^verbatim>\<open>cv2.VideoCapture(video_path)\<close> gives: whether it opened, the properties read by
  \<^verbatim>\<open>cap.get\<close> (the frame count already through \<^verbatim>\<open>int\<close>, the width an integral float), and
  \<open>frames n\<close>, the result of \<^verbatim>\<open>cap.set(CAP_PROP_POS_FRAMES, n)\<close> followed by
  \<^verbatim>\<open>cap.read()\<close>: \<open>None\<close> when \<^verbatim>\<open>ret\<close> is false.
\<close>

record video =
  isOpened :: bool
  fps :: rat
  frame_count :: int
  frame_width :: int
  frames :: "int \<Rightarrow> image option"

text \<open>
  The state the pipeline changes: the files of the output folder, whether \<^verbatim>\<open>cap.release()\<close>
  has been called, and two histories: the positions passed to \<^verbatim>\<open>cap.set\<close>, and every
  \<^verbatim>\<open>row_frames.append(frame)\<close> with the value of \<^verbatim>\<open>current_frame\<close> at that moment.
\<close>

record world =
  files :: "string \<rightharpoonup> image"
  released :: bool
  seeks :: "int list"
  emitted :: "(int \<times> image) list"

text \<open>The return points of \<^verbatim>\<open>create_thumbnail_grid\<close>, and an exception leaving it.\<close>

datatype exit =
    SkippedExisting
  | OpenFailed
  | ZeroMetadata
  | HconcatFailed
  | VconcatFailed
  | Persisted
  | EmptyGrid
  | LibraryError
  | Uncaught error

datatype 'a flow = Continue 'a | Return exit | Raise error

definition imwrite :: "string \<Rightarrow> image \<Rightarrow> world \<Rightarrow> world" where
  "imwrite path img w = w\<lparr>files := (files w)(path \<mapsto> img)\<rparr>"

text \<open>\<^verbatim>\<open>save_black_image\<close> (lines 139--145)\<close>

definition save_black_image :: "string \<Rightarrow> string \<Rightarrow> world \<Rightarrow> world" where
  "save_black_image output_folder video_name w =
     (let black_image = Zeros 1 1 3;
          thumbnail_path = path_join output_folder (video_name @ ''_thumbnail.png'')
      in imwrite thumbnail_path black_image w)"

subsection \<open>One sampled frame (lines 70--89)\<close>

text \<open>
  Lines 71--75: the size a frame that was read is resized to. \<open>columns\<close> is
  \<^verbatim>\<open>grid_size[0]\<close>. The divisions raise ZeroDivisionError on a zero divisor, as Python's do.
\<close>

definition target_size :: "video \<Rightarrow> int \<Rightarrow> image \<Rightarrow> error + int \<times> int" where
  "target_size cap columns frame =
     (if height frame = 0 then Inl ZeroDivisionError
      else
        let aspect_ratio = (of_int (width frame) :: rat) / of_int (height frame) in
        if columns = 0 then Inl ZeroDivisionError
        else
          let target_width = max 400 (frame_width cap div columns) in
          if aspect_ratio = 0 then Inl ZeroDivisionError
          else
            let target_height = py_int (of_int target_width / aspect_ratio)
            in Inr (target_width, target_height))"

text \<open>Resize (line 76) and timestamp (lines 79--87) of the frame.\<close>

definition process_frame :: "video \<Rightarrow> int \<Rightarrow> int \<Rightarrow> image \<Rightarrow> error + image" where
  "process_frame cap columns current_frame frame =
     (case target_size cap columns frame of
        Inl e \<Rightarrow> Inl e
      | Inr (target_width, target_height) \<Rightarrow>
          (case resize frame target_width target_height of
             Inl e \<Rightarrow> Inl e
           | Inr frame \<Rightarrow>
               (case timestamp_text current_frame (fps cap) of
                  Inl e \<Rightarrow> Inl e
                | Inr text \<Rightarrow> Inr (PutText frame text))))"

subsection \<open>Sampling the grid (lines 55--104)\<close>

text \<open>
  The inner loop \<^verbatim>\<open>for j in range(grid_size[0])\<close>, by the number of iterations left. It
  returns \<open>row_frames\<close> and \<open>current_frame\<close>, or the exception a frame raised.
\<close>

fun row_loop :: "video \<Rightarrow> int \<Rightarrow> int \<Rightarrow> nat \<Rightarrow> int \<Rightarrow> image list \<Rightarrow> world
    \<Rightarrow> (error + image list \<times> int) \<times> world" where
  "row_loop cap columns frame_interval 0 current_frame row_frames w =
     (Inr (row_frames, current_frame), w)"
| "row_loop cap columns frame_interval (Suc n) current_frame row_frames w =
     (let w = w\<lparr>seeks := seeks w @ [current_frame]\<rparr> in
      case frames cap current_frame of
        None \<Rightarrow> row_loop cap columns frame_interval n (current_frame + frame_interval) row_frames w
      | Some frame \<Rightarrow>
          (case process_frame cap columns current_frame frame of
             Inl e \<Rightarrow> (Inl e, w)
           | Inr frame \<Rightarrow>
               row_loop cap columns frame_interval n (current_frame + frame_interval)
                 (row_frames @ [frame])
                 (w\<lparr>emitted := emitted w @ [(current_frame, frame)]\<rparr>)))"

text \<open>
  Lines 97--98: a row of frames becomes a row image when it is not empty and
  \<^verbatim>\<open>check_frame_dimensions\<close> holds; otherwise \<open>rows\<close> is left as it is.
\<close>

definition append_row :: "image list \<Rightarrow> image list \<Rightarrow> error + image list" where
  "append_row row_frames rows =
     (if row_frames \<noteq> [] \<and> check_frame_dimensions row_frames
      then (case hconcat row_frames of Inl e \<Rightarrow> Inl e | Inr row \<Rightarrow> Inr (rows @ [row]))
      else Inr rows)"

text \<open>
  The outer loop \<^verbatim>\<open>for i in range(grid_size[1])\<close>: a row of frames, then lines 97--98
  inside their own \<^verbatim>\<open>try\<close> (lines 96--104), whose handler for \<^verbatim>\<open>cv2.error\<close> saves the
  placeholder and returns.
\<close>

fun rows_loop :: "video \<Rightarrow> string \<Rightarrow> string \<Rightarrow> int \<Rightarrow> int \<Rightarrow> nat \<Rightarrow> int \<Rightarrow> image list \<Rightarrow> world
    \<Rightarrow> (image list \<times> int) flow \<times> world" where
  "rows_loop cap output_folder video_name columns frame_interval 0 current_frame rows w =
     (Continue (rows, current_frame), w)"
| "rows_loop cap output_folder video_name columns frame_interval (Suc n) current_frame rows w =
     (case row_loop cap columns frame_interval (nat columns) current_frame [] w of
        (Inl e, w) \<Rightarrow> (Raise e, w)
      | (Inr (row_frames, current_frame), w) \<Rightarrow>
          (case append_row row_frames rows of
             Inl Cv2_error \<Rightarrow> (Return HconcatFailed, save_black_image output_folder video_name w)
           | Inl e \<Rightarrow> (Raise e, w)
           | Inr rows \<Rightarrow>
               rows_loop cap output_folder video_name columns frame_interval n current_frame
                 rows w))"

subsection \<open>The final grid (lines 108--113)\<close>

text \<open>
  Iterating over the numpy array \<^verbatim>\<open>rows[0]\<close> of shape \<open>(h, w, c)\<close> yields its \<open>h\<close> scan lines,
  each an array of shape \<open>(w, c)\<close>.
\<close>

definition scanline_shapes :: "image \<Rightarrow> (int \<times> int) list" where
  "scanline_shapes img = replicate (nat (height img)) (width img, channels img)"

definition assemble_grid :: "image list \<Rightarrow> error + image option" where
  "assemble_grid rows =
     (case rows of
        [] \<Rightarrow> Inr None
      | row0 # _ \<Rightarrow>
          let frame_dimensions = set (scanline_shapes row0) in
          if card frame_dimensions = 1
          then (case vconcat rows of Inl e \<Rightarrow> Inl e | Inr grid_image \<Rightarrow> Inr (Some grid_image))
          else Inr None)"

subsection \<open>\<^verbatim>\<open>create_thumbnail_grid\<close> (lines 13--137)\<close>

text \<open>
  Lines 43--47: the length in minutes, raised to 1 when it is below 1.
\<close>

definition video_length_minutes :: "int \<Rightarrow> rat \<Rightarrow> rat" where
  "video_length_minutes total_frames frame_rate =
     (let minutes = of_int total_frames / (frame_rate * 60)
      in if minutes < 1 then 1 else minutes)"

text \<open>Line 51; \<^verbatim>\<open>//\<close> raises ZeroDivisionError on a zero divisor.\<close>

definition frame_interval_of :: "int \<Rightarrow> int \<times> int \<Rightarrow> error + int" where
  "frame_interval_of total_frames grid_size =
     (if fst grid_size * snd grid_size = 0 then Inl ZeroDivisionError
      else Inr (max 1 (total_frames div (fst grid_size * snd grid_size))))"

text \<open>
  The body of the outer \<^verbatim>\<open>try\<close> (lines 32--129): \<open>Inr\<close> a return point, \<open>Inl\<close> an exception
  that leaves the body. \<^verbatim>\<open>grid_size\<close> is subscripted, a TypeError on \<^verbatim>\<open>None\<close>.
\<close>

definition try_body :: "video \<Rightarrow> string \<Rightarrow> string \<Rightarrow> world \<Rightarrow> (error + exit) \<times> world" where
  "try_body cap output_folder video_name w =
     (let total_frames = frame_count cap in
      if fps cap = 0 \<or> total_frames = 0 then (Inr ZeroMetadata, w\<lparr>released := True\<rparr>)
      else
        case find_closest_numbers (video_length_minutes total_frames (fps cap)) of
          Inl e \<Rightarrow> (Inl e, w)
        | Inr None \<Rightarrow> (Inl TypeError, w)
        | Inr (Some grid_size) \<Rightarrow>
            (case frame_interval_of total_frames grid_size of
               Inl e \<Rightarrow> (Inl e, w)
             | Inr frame_interval \<Rightarrow>
                 (case rows_loop cap output_folder video_name (fst grid_size) frame_interval
                         (nat (snd grid_size)) 0 [] w of
                    (Raise e, w) \<Rightarrow> (Inl e, w)
                  | (Return x, w) \<Rightarrow> (Inr x, w)
                  | (Continue (rows, current_frame), w) \<Rightarrow>
                      (case assemble_grid rows of
                         Inl Cv2_error \<Rightarrow>
                           (Inr VconcatFailed, save_black_image output_folder video_name w)
                       | Inl e \<Rightarrow> (Inl e, w)
                       | Inr grid_image \<Rightarrow>
                           let w = w\<lparr>released := True\<rparr> in
                           (case grid_image of
                              Some grid \<Rightarrow>
                                (Inr Persisted,
                                 imwrite (path_join output_folder (video_name @ ''_thumbnail.png''))
                                   grid w)
                            | None \<Rightarrow> (Inr EmptyGrid, w))))))"

text \<open>
  The whole function, for the capture \<open>cap\<close> that \<^verbatim>\<open>cv2.VideoCapture(video_path)\<close> gives.
  Only \<^verbatim>\<open>cv2.error\<close> is caught by the outer handler (lines 130--137).
\<close>

definition create_thumbnail_grid :: "video \<Rightarrow> string \<Rightarrow> string \<Rightarrow> world \<Rightarrow> exit \<times> world" where
  "create_thumbnail_grid cap video_path output_folder w =
     (let video_name = splitext_root (basename video_path);
          thumbnail_path = path_join output_folder (video_name @ ''_thumbnail.png'')
      in if files w thumbnail_path \<noteq> None then (SkippedExisting, w)
         else if \<not> isOpened cap then (OpenFailed, w)
         else case try_body cap output_folder video_name w of
                (Inr x, w) \<Rightarrow> (x, w)
              | (Inl Cv2_error, w) \<Rightarrow>
                  (LibraryError, (save_black_image output_folder video_name w)\<lparr>released := True\<rparr>)
              | (Inl e, w) \<Rightarrow> (Uncaught e, w))"

subsection \<open>The extension filter of \<^verbatim>\<open>process_videos_in_directory\<close> (line 169)\<close>


subsection \<open>What one grid slot contributes\<close>

text \<open>
  For the slot sampled at frame index \<open>pos\<close>: the entry appended to the frames of its row
  (none when the read fails), and whether the slot is passed without an exception.
\<close>

definition slot_output :: "video \<Rightarrow> int \<Rightarrow> int \<Rightarrow> (int \<times> image) list" where
  "slot_output cap columns pos =
     (case frames cap pos of
        None \<Rightarrow> []
      | Some frame \<Rightarrow>
          (case process_frame cap columns pos frame of
             Inl e \<Rightarrow> []
           | Inr frame \<Rightarrow> [(pos, frame)]))"

definition slot_ok :: "video \<Rightarrow> int \<Rightarrow> int \<Rightarrow> bool" where
  "slot_ok cap columns pos =
     (case frames cap pos of
        None \<Rightarrow> True
      | Some frame \<Rightarrow>
          (case process_frame cap columns pos frame of Inl e \<Rightarrow> False | Inr frame \<Rightarrow> True))"

subsection \<open>Example inputs\<close>

definition empty_world :: world where
  "empty_world = \<lparr>files = Map.empty, released = False, seeks = [], emitted = []\<rparr>"

text \<open>
  Four minutes at one frame per second, 400 pixels wide: a 2 x 2 grid sampled at frames
  0, 60, 120 and 180. In the first video the frames of the second half are one line
  higher; in the second the read at frame 180 fails.
\<close>

definition video_taller_second_row :: video where
  "video_taller_second_row =
     \<lparr>isOpened = True, fps = 1, frame_count = 240, frame_width = 400,
      frames = (\<lambda>n. if n < 120 then Some (Raw 100 400 3) else Some (Raw 101 400 3))\<rparr>"

definition video_short_second_row :: video where
  "video_short_second_row =
     \<lparr>isOpened = True, fps = 1, frame_count = 240, frame_width = 400,
      frames = (\<lambda>n. if n < 180 then Some (Raw 100 400 3) else None)\<rparr>"

text \<open>
  Six minutes at one frame per second: a grid of 3 columns and 2 rows sampled every 60
  frames. In the first video the frame at 60 is 101 high and all others 100, so the first
  row has heights 100, 101, 100; in the second the frame at 240 is 101 high as well.
\<close>

definition video_one_uneven_row :: video where
  "video_one_uneven_row =
     \<lparr>isOpened = True, fps = 1, frame_count = 360, frame_width = 400,
      frames = (\<lambda>n. if n = 60 then Some (Raw 101 400 3) else Some (Raw 100 400 3))\<rparr>"

definition video_two_uneven_rows :: video where
  "video_two_uneven_rows =
     \<lparr>isOpened = True, fps = 1, frame_count = 360, frame_width = 400,
      frames = (\<lambda>n. if n = 60 \<or> n = 240 then Some (Raw 101 400 3) else Some (Raw 100 400 3))\<rparr>"

section \<open>Properties\<close>

subsection \<open>Rounding and the integer square root\<close>



lemma py_round_nonneg: "0 \<le> x \<Longrightarrow> 0 \<le> py_round x"
  unfolding py_round_def Let_def by auto





lemma sqrt_search_le: "sqrt_search n k * sqrt_search n k \<le> n"
  by (induction k) auto

lemma sqrt_search_bound: "sqrt_search n k \<le> k"
  by (induction k) auto

lemma sqrt_search_greatest: "m \<le> k \<Longrightarrow> m * m \<le> n \<Longrightarrow> m \<le> sqrt_search n k"
proof (induction k)
  case 0
  then show ?case by simp
next
  case (Suc k)
  then show ?case by (cases "m = Suc k") auto
qed

lemma sqrt_search_floor:
  "sqrt_search n n * sqrt_search n n \<le> n \<and> n < Suc (sqrt_search n n) * Suc (sqrt_search n n)"
proof -
  have "\<not> Suc (sqrt_search n n) * Suc (sqrt_search n n) \<le> n"
  proof
    assume a: "Suc (sqrt_search n n) * Suc (sqrt_search n n) \<le> n"
    have "Suc (sqrt_search n n) \<le> Suc (sqrt_search n n) * Suc (sqrt_search n n)" by simp
    with a have "Suc (sqrt_search n n) \<le> n" by linarith
    from sqrt_search_greatest [OF this a] show False by simp
  qed
  then show ?thesis using sqrt_search_le [of n n] by simp
qed





subsection \<open>The grid size\<close>



text \<open>
  Claim C10. Below the caller's clamp the function can return a second component 0: for
  the target 0.4, which lies in \<open>(0, 0.5]\<close>, only \<open>i = 1\<close> is tested, \<open>j = round 0.4 = 0\<close>,
  and the result is \<open>(1, 0)\<close>.
\<close>

theorem find_closest_numbers_unclamped_zero_rows:
  "(0::rat) < 2 / 5 \<and> (2::rat) / 5 \<le> 1 / 2 \<and> find_closest_numbers (2 / 5) = Inr (Some (1, 0))"
  by code_simp

subsection \<open>The extension filter\<close>




subsection \<open>The timestamp\<close>

lemma dec_vals: "dec 0 = ''0''" "dec 1 = ''1''" "dec (Suc 0) = ''1''" "dec 5000 = ''5000''"
  by (simp_all add: dec.simps digit_def)

lemma replicate_2: "replicate 2 c = [c, c]"
  by (simp add: numeral_2_eq_2)

lemma floor_1805: "\<lfloor>(1805::rat) / 30\<rfloor> = 60"
  by code_simp

lemma divmod_1805: "py_divmod 1805 30 = Inr (60, 5)"
  using floor_1805 by (simp add: py_divmod_def)

lemma divmod_0: "py_divmod 0 30 = Inr (0, 0)"
  by (simp add: py_divmod_def)

lemma py_round_of_int: "py_round (of_int n) = n"
  by (simp add: py_round_def)

lemma td_1805: "new_timedelta 60 5 = Inr \<lparr>days = 0, seconds = 60, microseconds = 5000\<rparr>"
proof -
  have "py_round (60 * 1000000 + 5 * 1000) = 60005000"
    using py_round_of_int [of 60005000] by simp
  then show ?thesis by (simp add: new_timedelta_def)
qed

lemma td_0: "new_timedelta 0 0 = Inr \<lparr>days = 0, seconds = 0, microseconds = 0\<rparr>"
  using py_round_of_int [of 0] by (simp add: new_timedelta_def)

lemma str_1805: "str_timedelta \<lparr>days = 0, seconds = 60, microseconds = 5000\<rparr> = ''0:01:00.005000''"
  by (simp add: str_timedelta_def fmt_d_def fmt_0d_def dec_vals replicate_2)

lemma str_0: "str_timedelta \<lparr>days = 0, seconds = 0, microseconds = 0\<rparr> = ''0:00:00''"
  by (simp add: str_timedelta_def fmt_d_def fmt_0d_def dec_vals replicate_2)

text \<open>
  Claim C4, at a failing input. With 30 frames per second, frame 1805 is 60.1666 seconds
  into the video, and frame 0 is at 0 seconds; the texts drawn are \<open>0:01:00.00\<close> and \<open>0:0\<close>.
  \<^verbatim>\<open>divmod(1805, 30)\<close> is \<open>(60, 5)\<close>, and the remainder of 5 frames is passed on as 5
  milliseconds; \<^verbatim>\<open>[:-4]\<close> then cuts \<open>0:01:00.005000\<close> to two decimals, and cuts \<open>0:00:00\<close>,
  which has no fraction, to \<open>0:0\<close>.
\<close>

theorem timestamp_text_not_milliseconds:
  "timestamp_text 1805 30 = Inr ''0:01:00.00'' \<and> timestamp_text 0 30 = Inr ''0:0''"
  using divmod_1805 divmod_0
  by (simp add: timestamp_text_def td_1805 td_0 str_1805 str_0)

subsection \<open>The resize\<close>




subsection \<open>Rows and the grid\<close>

lemma check_frame_dimensions_same:
  "check_frame_dimensions (x # xs) \<longleftrightarrow> list_all (\<lambda>y. shape y = shape x) xs"
proof
  assume "check_frame_dimensions (x # xs)"
  then have "card (insert (shape x) (shape ` set xs)) = 1"
    by (simp add: check_frame_dimensions_def)
  then obtain a where a: "insert (shape x) (shape ` set xs) = {a}"
    by (auto simp: card_1_singleton_iff)
  then have "shape x = a" by blast
  moreover from a have "\<forall>y\<in>set xs. shape y = a" by blast
  ultimately show "list_all (\<lambda>y. shape y = shape x) xs" by (simp add: list_all_iff)
next
  assume "list_all (\<lambda>y. shape y = shape x) xs"
  then have "insert (shape x) (shape ` set xs) = {shape x}" by (auto simp: list_all_iff)
  then have "set (map shape (x # xs)) = {shape x}" by simp
  then show "check_frame_dimensions (x # xs)"
    unfolding check_frame_dimensions_def Let_def by (simp only: card.empty card_insert_disjoint finite.emptyI empty_iff) simp
qed

lemma check_frame_dimensions_Nil: "\<not> check_frame_dimensions []"
  by (simp add: check_frame_dimensions_def)

lemma hconcat_checked:
  assumes "check_frame_dimensions row_frames"
  shows "hconcat row_frames = Inr (HConcat row_frames)"
proof (cases row_frames)
  case Nil
  with assms show ?thesis by (simp add: check_frame_dimensions_Nil)
next
  case (Cons x xs)
  with assms have "list_all (\<lambda>y. shape y = shape x) xs"
    by (simp add: check_frame_dimensions_same)
  then have "list_all (\<lambda>y. height y = height x \<and> channels y = channels x) xs"
    by (simp add: list_all_iff shape_def)
  with Cons show ?thesis by simp
qed

lemma append_row_result:
  "append_row row_frames rows =
     Inr (if check_frame_dimensions row_frames then rows @ [HConcat row_frames] else rows)"
  by (simp add: append_row_def hconcat_checked check_frame_dimensions_Nil)

lemma row_loop_keeps:
  "row_loop cap columns v n cur rf w = (res, w') \<Longrightarrow>
     files w' = files w \<and> released w' = released w"
proof (induction n arbitrary: cur rf w)
  case 0
  then show ?case by auto
next
  case (Suc n)
  then show ?case
    by (auto simp: Let_def split: option.splits sum.splits)
qed

lemma rows_loop_keeps:
  "rows_loop cap folder name columns v n cur rows w = (res, w') \<Longrightarrow>
     (\<forall>x. res \<noteq> Return x) \<and> files w' = files w \<and> released w' = released w"
proof (induction n arbitrary: cur rows w)
  case 0
  then show ?case by auto
next
  case (Suc n)
  obtain r1 w1 where rl: "row_loop cap columns v (nat columns) cur [] w = (r1, w1)"
    by (cases "row_loop cap columns v (nat columns) cur [] w")
  from row_loop_keeps [OF rl] have k: "files w1 = files w" "released w1 = released w" by simp_all
  show ?case
  proof (cases r1)
    case (Inl e)
    with Suc.prems rl k show ?thesis by auto
  next
    case (Inr p)
    obtain rf cur1 where p: "p = (rf, cur1)" by (cases p)
    from Suc.prems rl Inr p have
      "rows_loop cap folder name columns v n cur1
         (if check_frame_dimensions rf then rows @ [HConcat rf] else rows) w1 = (res, w')"
      by (simp add: append_row_result)
    from Suc.IH [OF this] k show ?thesis by simp
  qed
qed

text \<open>
  Claim C2, at a failing input. The rows of \<open>video_taller_second_row\<close> have the shapes
  \<open>(100, 800, 3)\<close> and \<open>(101, 800, 3)\<close>: they differ in height, and the video still gets
  a grid made of both, with no placeholder. Line 111 looks at the scan lines of the first
  row image, \<^verbatim>\<open>rows[0]\<close>, which all have one shape, and not at the shapes of the row images.
\<close>

theorem grid_from_rows_of_different_height:
  "(case create_thumbnail_grid video_taller_second_row ''/v/a.mp4'' ''/v'' empty_world of
      (x, w) \<Rightarrow>
        x = Persisted \<and>
        files w ''/v/a_thumbnail.png'' =
          Some (VConcat [HConcat [PutText (Resize (Raw 100 400 3) 400 100) ''0:0'',
                                  PutText (Resize (Raw 100 400 3) 400 100) ''0:0''],
                         HConcat [PutText (Resize (Raw 101 400 3) 400 101) ''0:0'',
                                  PutText (Resize (Raw 101 400 3) 400 101) ''0:0'']]))
   \<and> shape (HConcat [PutText (Resize (Raw 100 400 3) 400 100) ''0:0'',
                      PutText (Resize (Raw 100 400 3) 400 100) ''0:0'']) = (100, 800, 3)
   \<and> shape (HConcat [PutText (Resize (Raw 101 400 3) 400 101) ''0:0'',
                      PutText (Resize (Raw 101 400 3) 400 101) ''0:0'']) = (101, 800, 3)"
  by code_simp

text \<open>
  Claim C3, at a failing input. In \<open>video_short_second_row\<close> the read at frame 180 fails,
  the second row is half as wide as the first and \<^verbatim>\<open>cv2.vconcat\<close> raises; the handler of
  lines 114--119 saves the placeholder and returns, and \<^verbatim>\<open>cap.release()\<close> has not been
  called.
\<close>

theorem no_release_after_vconcat_error:
  "(case create_thumbnail_grid video_short_second_row ''/v/a.mp4'' ''/v'' empty_world of
      (x, w) \<Rightarrow>
        x = VconcatFailed \<and> \<not> released w \<and> seeks w = [0, 60, 120, 180] \<and>
        files w ''/v/a_thumbnail.png'' = Some (Zeros 1 1 3))"
  by code_simp

end
